theory Spec2Isabelle
  imports Main "HOL-Library.Sublist"
begin

section \<open>Task client of go-cfclient (tasks.go)\<close>

text \<open>
  The file \<^verbatim>\<open>tasks.go\<close> turns typed calls into requests against the \<^verbatim>\<open>/v3\<close> task
  endpoints and the JSON answers back into Go structures. Go functions return pairs
  \<^verbatim>\<open>(value, error)\<close>; the model returns the same pairs, with \<open>None\<close> for a \<^verbatim>\<open>nil\<close> error,
  a \<^verbatim>\<open>nil\<close> slice, a \<^verbatim>\<open>nil\<close> reader or a \<^verbatim>\<open>nil\<close> interface value.
\<close>

subsection \<open>Errors\<close>

text \<open>
  An error value is either a primitive error with its message (produced by the HTTP
  transport, by reading a body or by \<^verbatim>\<open>encoding/json\<close>), or an error annotated by
  \<^verbatim>\<open>github.com/pkg/errors\<close>.
\<close>

datatype error = New string | withMessage error string

fun Error :: "error \<Rightarrow> string" where
  "Error (New msg) = msg"
| "Error (withMessage cause msg) = msg @ '': '' @ Error cause"

text \<open>
  Modelled from the spec: errors are wrapped with contextual messages, by \<^verbatim>\<open>errors.Wrap\<close>
  and \<^verbatim>\<open>errors.Wrapf\<close> of \<^verbatim>\<open>github.com/pkg/errors\<close>, a library vendored beside this file
  whose source is not at hand. The spec is silent on wrapping a \<^verbatim>\<open>nil\<close> error; the library
  documents it: \<^verbatim>\<open>Wrap(err, message)\<close> returns an error annotating \<^verbatim>\<open>err\<close> with the message,
  whose text is the message, a colon and a space, then the text of \<^verbatim>\<open>err\<close>; if \<^verbatim>\<open>err\<close> is
  \<^verbatim>\<open>nil\<close>, \<^verbatim>\<open>Wrap\<close> returns \<^verbatim>\<open>nil\<close>. \<^verbatim>\<open>Wrapf\<close> is \<^verbatim>\<open>Wrap\<close> with a formatted message.
\<close>

definition Wrap :: "error option \<Rightarrow> string \<Rightarrow> error option" where
  "Wrap err message = (case err of None \<Rightarrow> None | Some e \<Rightarrow> Some (withMessage e message))"

subsection \<open>Formatting\<close>

text \<open>
  \<^verbatim>\<open>fmt.Sprintf("%d", n)\<close> is \<open>Sprintf_d n\<close>: the decimal digits of \<open>n\<close>, after a minus
  sign when \<open>n\<close> is negative. Go's \<^verbatim>\<open>int\<close> is modelled by \<open>int\<close>; no operation of this file
  computes with it. The verb \<^verbatim>\<open>%s\<close> on a string inserts the string as it is, which the
  model writes as concatenation: \<^verbatim>\<open>fmt.Sprintf("/v3/tasks/%s", guid)\<close> is
  \<open>''/v3/tasks/'' @ guid\<close>. Both formats given to \<^verbatim>\<open>Wrapf\<close> in this file end in their only
  verb, \<^verbatim>\<open>%d\<close>: \<open>Wrapf err format n\<close> stands for \<^verbatim>\<open>errors.Wrapf(err, format + "%d", n)\<close>.
\<close>

fun digits :: "nat \<Rightarrow> string" where
  "digits n = (if n < 10 then [char_of (48 + n)]
               else digits (n div 10) @ [char_of (48 + n mod 10)])"

declare digits.simps [simp del]

definition Sprintf_d :: "int \<Rightarrow> string" where
  "Sprintf_d n = (if n < 0 then ''-'' @ digits (nat (- n)) else digits (nat n))"

definition Wrapf :: "error option \<Rightarrow> string \<Rightarrow> int \<Rightarrow> error option" where
  "Wrapf err format n = Wrap err (format @ Sprintf_d n)"

subsection \<open>Data model\<close>

text \<open>The anonymous struct \<^verbatim>\<open>struct { Href string }\<close> used for every hyperlink.\<close>

record Link =
  Href :: string

text \<open>
  \<^verbatim>\<open>time.Time\<close> as the Go runtime lays it out; its zero value has every field zero.
  No operation of this file inspects a time.
\<close>

record Time =
  wall :: nat
  ext :: int
  loc :: "string option"

record TaskResult =
  FailureReason :: string

record TaskLinks =
  Self :: Link
  App :: Link
  Droplet :: Link

record Task =
  GUID :: string
  SequenceID :: int
  Name :: string
  Command :: string
  State :: string
  MemoryInMb :: int
  DiskInMb :: int
  Result :: TaskResult
  CreatedAt :: Time
  UpdatedAt :: Time
  DropletGUID :: string
  Links :: TaskLinks

text \<open>
  The pagination block. \<^verbatim>\<open>Next\<close> and \<^verbatim>\<open>Previous\<close> are \<^verbatim>\<open>interface{}\<close>: \<open>None\<close> is the
  \<^verbatim>\<open>nil\<close> interface, \<open>Some v\<close> holds a dynamic value \<open>v\<close> of whatever the decoder stored.
\<close>

record 'a Pagination =
  TotalResults :: int
  TotalPages :: int
  First :: Link
  Last :: Link
  Next :: "'a option"
  Previous :: "'a option"

record 'a TaskListResponse =
  Pagination :: "'a Pagination"
  Tasks :: "Task list option"

record TaskRequest =
  Command :: string
  Name :: string
  MemoryInMegabyte :: int
  DiskInMegabyte :: int
  DropletGUID :: string

text \<open>The zero values Go gives to \<^verbatim>\<open>var task Task\<close> and \<^verbatim>\<open>var response TaskListResponse\<close>.\<close>

definition zero_Time :: Time where
  "zero_Time = \<lparr>wall = 0, ext = 0, loc = None\<rparr>"

definition zero_Task :: Task where
  "zero_Task = \<lparr>GUID = [], SequenceID = 0, Task.Name = [], Task.Command = [], State = [],
     MemoryInMb = 0, DiskInMb = 0, Result = \<lparr>FailureReason = []\<rparr>,
     CreatedAt = zero_Time, UpdatedAt = zero_Time, Task.DropletGUID = [],
     Links = \<lparr>Self = \<lparr>Href = []\<rparr>, App = \<lparr>Href = []\<rparr>, Droplet = \<lparr>Href = []\<rparr>\<rparr>\<rparr>"

definition zero_TaskListResponse :: "'a TaskListResponse" where
  "zero_TaskListResponse =
     \<lparr>Pagination = \<lparr>TotalResults = 0, TotalPages = 0, First = \<lparr>Href = []\<rparr>,
        Last = \<lparr>Href = []\<rparr>, Next = None, Previous = None\<rparr>,
      Tasks = None\<rparr>"

subsection \<open>The shared HTTP client\<close>

text \<open>
  A request as \<^verbatim>\<open>NewRequest\<close> builds it: the method, the path below the API address and
  the body reader (\<open>None\<close> when there is none; otherwise the bytes the reader yields).
  A response carries its status code and its body; the body is given by what
  \<^verbatim>\<open>ioutil.ReadAll\<close> gets from it: the bytes read and the error that stopped the read,
  \<^verbatim>\<open>nil\<close> at the end of the stream.
\<close>

record Request =
  Method :: string
  Path :: string
  ReqBody :: "string option"

record Response =
  StatusCode :: int
  Body :: "string \<times> error option"

text \<open>
  Modelled from the spec: \<^verbatim>\<open>Client\<close>, \<^verbatim>\<open>NewRequest\<close>, \<^verbatim>\<open>NewRequestWithBody\<close> and
  \<^verbatim>\<open>DoRequest\<close> are the request-construction and execution helpers of the surrounding
  client library, whose source is not at hand. The client is given by its transport, which
  answers a request with an error or a response and may depend on the requests issued
  before, and by the log of requests issued so far. \<^verbatim>\<open>DoRequest\<close> issues one request:
  it returns Go's pair (response, error), exactly one of them \<^verbatim>\<open>nil\<close>, and appends the
  request to the log.
\<close>

record Client =
  transport :: "Request list \<Rightarrow> Request \<Rightarrow> error + Response"
  sent :: "Request list"

definition NewRequest :: "string \<Rightarrow> string \<Rightarrow> Request" where
  "NewRequest method path = \<lparr>Method = method, Path = path, ReqBody = None\<rparr>"

definition NewRequestWithBody :: "string \<Rightarrow> string \<Rightarrow> string option \<Rightarrow> Request" where
  "NewRequestWithBody method path bodyReader =
     \<lparr>Method = method, Path = path, ReqBody = bodyReader\<rparr>"

definition DoRequest :: "Client \<Rightarrow> Request \<Rightarrow> (Response option \<times> error option) \<times> Client" where
  "DoRequest c req =
     (case transport c (sent c) req of
        Inl e \<Rightarrow> (None, Some e)
      | Inr resp \<Rightarrow> (Some resp, None),
      c\<lparr>sent := sent c @ [req]\<rparr>)"

definition ReadAll :: "string \<times> error option \<Rightarrow> string \<times> error option" where
  "ReadAll r = r"

subsection \<open>Listing tasks\<close>

text \<open>
  \<^verbatim>\<open>json.Unmarshal\<close> and \<^verbatim>\<open>json.Encoder.Encode\<close> belong to Go's standard library and are
  parameters of the operations that call them. \<open>Unmarshal data v\<close> takes the bytes and the
  value the pointer refers to, and returns the value after decoding with the error.
  \<open>Encode rmap\<close> returns the bytes written to the buffer with the error.
  A \<^verbatim>\<open>nil\<close> byte slice is the empty string. The deferred \<^verbatim>\<open>resp.Body.Close()\<close> has no
  part in what an operation returns or sends and is left out.
\<close>

definition makeTaskListRequest :: "Client \<Rightarrow> (string \<times> error option) \<times> Client" where
  "makeTaskListRequest c =
     (let req = NewRequest ''GET'' ''/v3/tasks'';
          ((resp, err), c) = DoRequest c req
      in if err \<noteq> None then (([], Wrap err ''Error requesting tasks''), c)
         else if StatusCode (the resp) \<noteq> 200
         then (([], Wrapf err ''Error requesting tasks: status code not 200, it was ''
                      (StatusCode (the resp))), c)
         else (ReadAll (Body (the resp)), c))"

definition parseTaskListRespones ::
  "(string \<Rightarrow> 'a TaskListResponse \<Rightarrow> 'a TaskListResponse \<times> error option) \<Rightarrow> string
    \<Rightarrow> 'a TaskListResponse \<times> error option" where
  "parseTaskListRespones Unmarshal answer =
     (let response = zero_TaskListResponse;
          (response, err) = Unmarshal answer response
      in if err \<noteq> None then (response, Wrap err ''Error unmarshaling response %v'')
         else (response, None))"

definition ListTasks ::
  "(string \<Rightarrow> 'a TaskListResponse \<Rightarrow> 'a TaskListResponse \<times> error option) \<Rightarrow> Client
    \<Rightarrow> (Task list option \<times> error option) \<times> Client" where
  "ListTasks Unmarshal c =
     (let ((body, err), c) = makeTaskListRequest c
      in if err \<noteq> None then ((None, Wrap err ''Error requesting tasks''), c)
         else let (response, err) = parseTaskListRespones Unmarshal body
              in if err \<noteq> None then ((None, Wrap err ''Error reading tasks''), c)
                 else ((Tasks response, None), c))"

subsection \<open>Creating a task\<close>

text \<open>
  The map \<^verbatim>\<open>rmap\<close> that \<^verbatim>\<open>createReader\<close> fills before encoding it (a Go
  \<^verbatim>\<open>map[string]string\<close>: every value is a string).
\<close>

definition createReader_rmap :: "TaskRequest \<Rightarrow> (string \<rightharpoonup> string)" where
  "createReader_rmap tr =
     (let rmap = Map.empty;
          rmap = rmap(''command'' \<mapsto> Command tr);
          rmap = (if Name tr \<noteq> [] then rmap(''name'' \<mapsto> Name tr) else rmap);
          rmap = (if MemoryInMegabyte tr \<noteq> 0
                  then rmap(''memory_in_mb'' \<mapsto> Sprintf_d (MemoryInMegabyte tr)) else rmap);
          rmap = (if DiskInMegabyte tr \<noteq> 0
                  then rmap(''disk_in_mb'' \<mapsto> Sprintf_d (DiskInMegabyte tr)) else rmap)
      in rmap)"

definition createReader ::
  "((string \<rightharpoonup> string) \<Rightarrow> string \<times> error option) \<Rightarrow> TaskRequest
    \<Rightarrow> string option \<times> error option" where
  "createReader Encode tr =
     (let rmap = createReader_rmap tr;
          (bodyReader, err) = Encode rmap
      in if err \<noteq> None then (None, Wrap err ''Error during encoding task request'')
         else (Some bodyReader, None))"

definition CreateTask ::
  "((string \<rightharpoonup> string) \<Rightarrow> string \<times> error option)
    \<Rightarrow> (string \<Rightarrow> Task \<Rightarrow> Task \<times> error option) \<Rightarrow> Client \<Rightarrow> TaskRequest
    \<Rightarrow> (Task \<times> error option) \<times> Client" where
  "CreateTask Encode Unmarshal c tr =
     (let task = zero_Task;
          (bodyReader, err) = createReader Encode tr
      in if err \<noteq> None then ((task, err), c)
         else
           let request = ''/v3/apps/'' @ DropletGUID tr @ ''/tasks'';
               req = NewRequestWithBody ''POST'' request bodyReader;
               ((resp, err), c) = DoRequest c req
           in if err \<noteq> None then ((task, Wrap err ''Error creating task''), c)
              else
                let (body, err) = ReadAll (Body (the resp))
                in if err \<noteq> None
                   then ((task, Wrap err ''Error reading task after creation''), c)
                   else
                     let (task, err) = Unmarshal body task
                     in if err \<noteq> None then ((task, Wrap err ''Error unmarshaling task''), c)
                        else ((task, err), c))"

subsection \<open>Reading tasks\<close>

definition TaskByGuid ::
  "(string \<Rightarrow> Task \<Rightarrow> Task \<times> error option) \<Rightarrow> Client \<Rightarrow> string
    \<Rightarrow> (Task \<times> error option) \<times> Client" where
  "TaskByGuid Unmarshal c guid =
     (let task = zero_Task;
          request = ''/v3/tasks/'' @ guid;
          req = NewRequest ''GET'' request;
          ((resp, err), c) = DoRequest c req
      in if err \<noteq> None then ((task, Wrap err ''Error requesting task''), c)
         else
           let (body, err) = ReadAll (Body (the resp))
           in if err \<noteq> None then ((task, Wrap err ''Error reading task''), c)
              else
                let (task, err) = Unmarshal body task
                in if err \<noteq> None then ((task, Wrap err ''Error unmarshaling task''), c)
                   else ((task, err), c))"

definition TasksByApp ::
  "(string \<Rightarrow> 'a TaskListResponse \<Rightarrow> 'a TaskListResponse \<times> error option) \<Rightarrow> Client \<Rightarrow> string
    \<Rightarrow> (Task list option \<times> error option) \<times> Client" where
  "TasksByApp Unmarshal c guid =
     (let request = ''/v3/apps/'' @ guid @ ''/tasks'';
          req = NewRequest ''GET'' request;
          ((resp, err), c) = DoRequest c req
      in if err \<noteq> None then ((None, Wrap err ''Error requesting task''), c)
         else
           let (body, err) = ReadAll (Body (the resp))
           in if err \<noteq> None then ((None, Wrap err ''Error reading tasks''), c)
              else
                let (response, err) = parseTaskListRespones Unmarshal body
                in if err \<noteq> None then ((None, Wrap err ''Error parsing tasks''), c)
                   else ((Tasks response, None), c))"

subsection \<open>Cancelling a task\<close>

definition TerminateTask :: "Client \<Rightarrow> string \<Rightarrow> error option \<times> Client" where
  "TerminateTask c guid =
     (let req = NewRequest ''PUT'' (''/v3/tasks/'' @ guid @ ''/cancel'');
          ((resp, err), c) = DoRequest c req
      in if err \<noteq> None then (Wrap err ''Error terminating task'', c)
         else if StatusCode (the resp) \<noteq> 202
         then (Wrapf err ''Failed terminating task, response status code ''
                     (StatusCode (the resp)), c)
         else (None, c))"

subsection \<open>Sample collaborators\<close>

text \<open>
  Concrete collaborators on which the operations can be evaluated. \<open>answers c req resp\<close>
  says that the transport of \<open>c\<close>, after the requests already issued, answers \<open>req\<close> with
  the response \<open>resp\<close>. \<open>respond_with resp\<close> is a fresh client whose server answers every
  request with \<open>resp\<close>.
\<close>

definition answers :: "Client \<Rightarrow> Request \<Rightarrow> Response \<Rightarrow> bool" where
  "answers c req resp \<longleftrightarrow> transport c (sent c) req = Inr resp"

definition respond_with :: "Response \<Rightarrow> Client" where
  "respond_with resp = \<lparr>transport = (\<lambda>log req. Inr resp), sent = []\<rparr>"

text \<open>
  A decoder given by a finite table from bodies to decoded values. Like
  \<^verbatim>\<open>json.Unmarshal\<close> it rejects empty input with the syntax error
  \<^verbatim>\<open>unexpected end of JSON input\<close>; a body outside the table is rejected too, and a
  rejected body leaves the target as it was.
\<close>

definition Unmarshal_table :: "(string \<times> 'v) list \<Rightarrow> string \<Rightarrow> 'v \<Rightarrow> 'v \<times> error option" where
  "Unmarshal_table tbl data v =
     (if data = [] then (v, Some (New ''unexpected end of JSON input''))
      else case map_of tbl data of
             Some r \<Rightarrow> (r, None)
           | None \<Rightarrow> (v, Some (New ''invalid character'')))"

text \<open>
  An encoder for maps whose keys and values need no escaping: it writes the members
  whose keys are in the given list, in that order, each value as a JSON string, and ends
  the text with a newline, as \<^verbatim>\<open>json.Encoder.Encode\<close> does with the keys sorted.
\<close>

definition quoted :: "string \<Rightarrow> string" where
  "quoted s = [CHR 0x22] @ s @ [CHR 0x22]"

fun members :: "string list \<Rightarrow> (string \<rightharpoonup> string) \<Rightarrow> string list" where
  "members [] m = []"
| "members (k # ks) m =
     (case m k of None \<Rightarrow> members ks m
      | Some v \<Rightarrow> (quoted k @ '':'' @ quoted v) # members ks m)"

fun commas :: "string list \<Rightarrow> string" where
  "commas [] = []"
| "commas [x] = x"
| "commas (x # y # ys) = x @ '','' @ commas (y # ys)"

definition Encode_keys :: "string list \<Rightarrow> (string \<rightharpoonup> string) \<Rightarrow> string \<times> error option" where
  "Encode_keys ks m = (''{'' @ commas (members ks m) @ ''}'' @ [CHR 0x0A], None)"

definition task_keys :: "string list" where
  "task_keys = [''command'', ''disk_in_mb'', ''memory_in_mb'', ''name'']"

text \<open>Reading a decimal numeral back, to say what \<^verbatim>\<open>%d\<close> prints.\<close>

definition decimal :: "string \<Rightarrow> nat" where
  "decimal cs = foldl (\<lambda>acc c. 10 * acc + (of_char c - 48)) 0 cs"

definition Atoi :: "string \<Rightarrow> int" where
  "Atoi cs = (case cs of
                c # ds \<Rightarrow> if c = CHR ''-'' then - int (decimal ds) else int (decimal cs)
              | [] \<Rightarrow> 0)"

text \<open>Task requests, tasks, pages and responses used as concrete inputs.\<close>

definition empty_command :: TaskRequest where
  "empty_command = \<lparr>Command = [], Name = [], MemoryInMegabyte = 0, DiskInMegabyte = 0,
     DropletGUID = ''d1''\<rparr>"

definition echo_hi :: TaskRequest where
  "echo_hi = \<lparr>Command = ''echo hi'', Name = [], MemoryInMegabyte = 0, DiskInMegabyte = 0,
     DropletGUID = ''d1''\<rparr>"

definition with_quotas :: TaskRequest where
  "with_quotas = \<lparr>Command = ''x'', Name = ''n'', MemoryInMegabyte = 256, DiskInMegabyte = 512,
     DropletGUID = ''d2''\<rparr>"

definition task_with_guid :: "string \<Rightarrow> Task" where
  "task_with_guid g = zero_Task\<lparr>GUID := g\<rparr>"

definition one_page :: "string TaskListResponse" where
  "one_page =
     \<lparr>Pagination = \<lparr>TotalResults = 3, TotalPages = 2,
        First = \<lparr>Href = ''/v3/apps/a1/tasks?page=1''\<rparr>,
        Last = \<lparr>Href = ''/v3/apps/a1/tasks?page=2''\<rparr>,
        Next = Some ''/v3/apps/a1/tasks?page=2'', Previous = None\<rparr>,
      Tasks = Some [task_with_guid ''t2'', task_with_guid ''t1'']\<rparr>"

definition server_error :: Response where
  "server_error = \<lparr>StatusCode = 500, Body = (''{\"guid\":\"t1\"}'', None)\<rparr>"


definition first_page :: Response where
  "first_page =
     \<lparr>StatusCode = 200,
      Body = (''{\"pagination\":{\"next\":\"/v3/apps/a1/tasks?page=2\"}}'', None)\<rparr>"

subsection \<open>The specification's reading of the request body\<close>

text \<open>
  The specification's words for the body of \<^verbatim>\<open>CreateTask\<close>: it contains only the
  non-empty or non-zero fields among command, name, memory_in_mb and disk_in_mb.
  \<open>spec_body_field tr k\<close> says that the key \<open>k\<close> is one of these for the request \<open>tr\<close>.
\<close>

definition spec_body_field :: "TaskRequest \<Rightarrow> string \<Rightarrow> bool" where
  "spec_body_field tr k \<longleftrightarrow>
     k = ''command'' \<and> Command tr \<noteq> [] \<or> k = ''name'' \<and> Name tr \<noteq> [] \<or>
     k = ''memory_in_mb'' \<and> MemoryInMegabyte tr \<noteq> 0 \<or>
     k = ''disk_in_mb'' \<and> DiskInMegabyte tr \<noteq> 0"

section \<open>Properties\<close>

subsection \<open>Auxiliary facts\<close>

lemma DoRequest_Inr: "transport c (sent c) req = Inr resp \<Longrightarrow>
  DoRequest c req = ((Some resp, None), c\<lparr>sent := sent c @ [req]\<rparr>)"
  by (simp add: DoRequest_def)

lemma DoRequest_Inl: "transport c (sent c) req = Inl e \<Longrightarrow>
  DoRequest c req = ((None, Some e), c\<lparr>sent := sent c @ [req]\<rparr>)"
  by (simp add: DoRequest_def)

lemma decimal_snoc: "decimal (cs @ [c]) = 10 * decimal cs + (of_char c - 48)"
  by (simp add: decimal_def)

lemma decimal_digits: "decimal (digits n) = n"
proof (induction n rule: digits.induct)
  case (1 n)
  show ?case
  proof (cases "n < 10")
    case True
    then show ?thesis by (subst digits.simps) (simp add: decimal_def)
  next
    case False
    with 1 show ?thesis by (subst digits.simps) (simp add: decimal_snoc)
  qed
qed

lemma digits_not_Nil: "digits n \<noteq> []"
  by (subst digits.simps) simp

lemma hd_digits_ge: "(48::nat) \<le> of_char (hd (digits n))"
proof (induction n rule: digits.induct)
  case (1 n)
  show ?case
  proof (cases "n < 10")
    case True
    then show ?thesis by (subst digits.simps) simp
  next
    case False
    with 1 show ?thesis by (subst digits.simps) (simp add: digits_not_Nil)
  qed
qed

lemma hd_digits: "hd (digits n) \<noteq> CHR ''-''"
proof
  assume "hd (digits n) = CHR ''-''"
  then have "(of_char (hd (digits n)) :: nat) = 45" by simp
  with hd_digits_ge [of n] show False by simp
qed

lemma Atoi_Sprintf_d: "Atoi (Sprintf_d n) = n"
proof (cases "n < 0")
  case True
  then show ?thesis by (simp add: Atoi_def Sprintf_d_def decimal_digits)
next
  case False
  obtain c ds where d: "digits (nat n) = c # ds" using digits_not_Nil by (cases "digits (nat n)") auto
  with hd_digits [of "nat n"] have "c \<noteq> CHR ''-''" by simp
  with d False decimal_digits [of "nat n"] show ?thesis by (simp add: Atoi_def Sprintf_d_def)
qed


lemma createReader_rmap_apply:
  "createReader_rmap tr k =
     (if k = ''command'' then Some (Command tr)
      else if k = ''name'' \<and> Name tr \<noteq> [] then Some (Name tr)
      else if k = ''memory_in_mb'' \<and> MemoryInMegabyte tr \<noteq> 0
           then Some (Sprintf_d (MemoryInMegabyte tr))
      else if k = ''disk_in_mb'' \<and> DiskInMegabyte tr \<noteq> 0
           then Some (Sprintf_d (DiskInMegabyte tr))
      else None)"
  by (simp add: createReader_rmap_def Let_def)

lemma createReader_rmap_DropletGUID:
  "createReader_rmap (tr\<lparr>DropletGUID := g\<rparr>) = createReader_rmap tr"
  by (simp add: createReader_rmap_def Let_def)

lemma createReader_Encode:
  "createReader Encode tr =
     (case Encode (createReader_rmap tr) of
        (written, None) \<Rightarrow> (Some written, None)
      | (written, Some e) \<Rightarrow> (None, Some (withMessage e ''Error during encoding task request'')))"
  by (simp add: createReader_def Wrap_def Let_def split: prod.splits option.splits)

lemma sent_TerminateTask:
  "sent (snd (TerminateTask c guid)) =
     sent c @ [\<lparr>Method = ''PUT'', Path = ''/v3/tasks/'' @ guid @ ''/cancel'', ReqBody = None\<rparr>]"
  by (simp add: TerminateTask_def DoRequest_def NewRequest_def Let_def split: sum.splits)

lemma sent_TaskByGuid:
  "sent (snd (TaskByGuid Unmarshal c guid)) =
     sent c @ [\<lparr>Method = ''GET'', Path = ''/v3/tasks/'' @ guid, ReqBody = None\<rparr>]"
  by (simp add: TaskByGuid_def DoRequest_def NewRequest_def ReadAll_def Let_def
      split: sum.splits prod.splits)

lemma sent_TasksByApp:
  "sent (snd (TasksByApp Unmarshal c guid)) =
     sent c @ [\<lparr>Method = ''GET'', Path = ''/v3/apps/'' @ guid @ ''/tasks'', ReqBody = None\<rparr>]"
  by (simp add: TasksByApp_def DoRequest_def NewRequest_def ReadAll_def Let_def
      split: sum.splits prod.splits)

lemma sent_ListTasks:
  "sent (snd (ListTasks Unmarshal c)) =
     sent c @ [\<lparr>Method = ''GET'', Path = ''/v3/tasks'', ReqBody = None\<rparr>]"
  by (simp add: ListTasks_def makeTaskListRequest_def DoRequest_def NewRequest_def ReadAll_def Let_def
      split: sum.splits prod.splits)

lemma sent_CreateTask:
  "Encode (createReader_rmap tr) = (written, None) \<Longrightarrow>
   sent (snd (CreateTask Encode Unmarshal c tr)) =
     sent c @ [\<lparr>Method = ''POST'', Path = ''/v3/apps/'' @ DropletGUID tr @ ''/tasks'',
                ReqBody = Some written\<rparr>]"
  by (simp add: CreateTask_def createReader_Encode DoRequest_def NewRequestWithBody_def
      ReadAll_def Let_def split: sum.splits prod.splits)

lemma sent_CreateTask_encode_error:
  "Encode (createReader_rmap tr) = (written, Some e) \<Longrightarrow>
   CreateTask Encode Unmarshal c tr =
     ((zero_Task, Some (withMessage e ''Error during encoding task request'')), c)"
  by (simp add: CreateTask_def createReader_Encode Wrap_def Let_def)

lemma parseTaskListRespones_result:
  "parseTaskListRespones Unmarshal answer =
     (case Unmarshal answer zero_TaskListResponse of
        (response, None) \<Rightarrow> (response, None)
      | (response, Some e) \<Rightarrow> (response, Some (withMessage e ''Error unmarshaling response %v'')))"
  by (simp add: parseTaskListRespones_def Wrap_def Let_def split: prod.splits option.splits)

lemma makeTaskListRequest_result:
  "fst (makeTaskListRequest c) =
     (case transport c (sent c) (NewRequest ''GET'' ''/v3/tasks'') of
        Inl e \<Rightarrow> ([], Some (withMessage e ''Error requesting tasks''))
      | Inr resp \<Rightarrow> if StatusCode resp \<noteq> 200 then ([], None) else Body resp)"
  by (simp add: makeTaskListRequest_def DoRequest_def Wrap_def Wrapf_def ReadAll_def Let_def
      split: sum.splits)

lemma TerminateTask_result:
  "fst (TerminateTask c guid) =
     (case transport c (sent c) (NewRequest ''PUT'' (''/v3/tasks/'' @ guid @ ''/cancel'')) of
        Inl e \<Rightarrow> Some (withMessage e ''Error terminating task'')
      | Inr resp \<Rightarrow> None)"
  by (simp add: TerminateTask_def DoRequest_def Wrap_def Wrapf_def Let_def split: sum.splits)

lemma ListTasks_result:
  "fst (ListTasks Unmarshal c) =
     (case fst (makeTaskListRequest c) of
        (data, Some e) \<Rightarrow> (None, Some (withMessage e ''Error requesting tasks''))
      | (data, None) \<Rightarrow>
          (case parseTaskListRespones Unmarshal data of
             (response, Some e) \<Rightarrow> (None, Some (withMessage e ''Error reading tasks''))
           | (response, None) \<Rightarrow> (Tasks response, None)))"
  by (simp add: ListTasks_def Wrap_def Let_def split: prod.splits option.splits)

lemma TasksByApp_result:
  "answers c (NewRequest ''GET'' (''/v3/apps/'' @ guid @ ''/tasks'')) resp \<Longrightarrow>
   Body resp = (data, None) \<Longrightarrow>
   fst (TasksByApp Unmarshal c guid) =
     (case Unmarshal data zero_TaskListResponse of
        (response, None) \<Rightarrow> (Tasks response, None)
      | (response, Some e) \<Rightarrow>
          (None, Some (withMessage (withMessage e ''Error unmarshaling response %v'')
                         ''Error parsing tasks'')))"
  by (simp add: TasksByApp_def answers_def DoRequest_def ReadAll_def Wrap_def Let_def
      parseTaskListRespones_result split: prod.splits option.splits)

lemma TaskByGuid_result:
  "answers c (NewRequest ''GET'' (''/v3/tasks/'' @ guid)) resp \<Longrightarrow>
   Body resp = (data, None) \<Longrightarrow>
   fst (TaskByGuid Unmarshal c guid) =
     (case Unmarshal data zero_Task of
        (task, None) \<Rightarrow> (task, None)
      | (task, Some e) \<Rightarrow> (task, Some (withMessage e ''Error unmarshaling task'')))"
  by (simp add: TaskByGuid_def answers_def DoRequest_def ReadAll_def Wrap_def Let_def
      split: prod.splits option.splits)

lemma CreateTask_result:
  "Encode (createReader_rmap tr) = (written, None) \<Longrightarrow>
   answers c (NewRequestWithBody ''POST'' (''/v3/apps/'' @ DropletGUID tr @ ''/tasks'')
                (Some written)) resp \<Longrightarrow>
   Body resp = (data, None) \<Longrightarrow>
   fst (CreateTask Encode Unmarshal c tr) =
     (case Unmarshal data zero_Task of
        (task, None) \<Rightarrow> (task, None)
      | (task, Some e) \<Rightarrow> (task, Some (withMessage e ''Error unmarshaling task'')))"
  by (simp add: CreateTask_def createReader_Encode answers_def DoRequest_def ReadAll_def Wrap_def
      Let_def split: prod.splits option.splits)

lemma answers_respond_with: "answers (respond_with resp) req resp"
  by (simp add: answers_def respond_with_def)

lemma Sprintf_d_256: "Sprintf_d 256 = ''256''"
  by code_simp

lemma Sprintf_d_512: "Sprintf_d 512 = ''512''"
  by code_simp

lemma createReader_rmap_with_quotas:
  "createReader_rmap with_quotas =
     [''command'' \<mapsto> ''x'', ''name'' \<mapsto> ''n'', ''memory_in_mb'' \<mapsto> ''256'',
      ''disk_in_mb'' \<mapsto> ''512'']"
  by (intro ext) (simp add: createReader_rmap_apply with_quotas_def Sprintf_d_256 Sprintf_d_512)

lemma Encode_keys_with_quotas:
  "Encode_keys task_keys (createReader_rmap with_quotas) =
     (''{\"command\":\"x\",\"disk_in_mb\":\"512\",\"memory_in_mb\":\"256\",\"name\":\"n\"}''
        @ [CHR 0x0A], None)"
  by (simp add: createReader_rmap_with_quotas Encode_keys_def task_keys_def quoted_def)

subsection \<open>Cancelling a task: the status check\<close>

text \<open>
  C1. The claim: on status 202 \<^verbatim>\<open>TerminateTask\<close> returns a \<^verbatim>\<open>nil\<close> error, and on any other
  status a non-\<^verbatim>\<open>nil\<close> error whose message names the status. The code builds that error
  with \<^verbatim>\<open>errors.Wrapf(err, ...)\<close> at a point where \<^verbatim>\<open>err\<close> is \<^verbatim>\<open>nil\<close>, and wrapping \<^verbatim>\<open>nil\<close>
  gives \<^verbatim>\<open>nil\<close>: when the server answers 404, or 200, \<^verbatim>\<open>TerminateTask\<close> returns a
  \<^verbatim>\<open>nil\<close> error after issuing its request.
\<close>

theorem TerminateTask_wrong_status_returns_nil:
  "fst (TerminateTask (respond_with \<lparr>StatusCode = 404, Body = ([], None)\<rparr>) ''abc'') = None
   \<and> sent (snd (TerminateTask (respond_with \<lparr>StatusCode = 404, Body = ([], None)\<rparr>) ''abc'')) =
       [\<lparr>Method = ''PUT'', Path = ''/v3/tasks/abc/cancel'', ReqBody = None\<rparr>]
   \<and> fst (TerminateTask (respond_with \<lparr>StatusCode = 200, Body = ([], None)\<rparr>) ''abc'') = None"
  by (simp add: TerminateTask_def respond_with_def DoRequest_def NewRequest_def Wrapf_def
      Wrap_def Let_def)

subsection \<open>Listing tasks: a status other than 200\<close>

text \<open>
  C2. The claim: on a status other than 200 \<^verbatim>\<open>ListTasks\<close> returns a non-\<^verbatim>\<open>nil\<close> error and
  a \<^verbatim>\<open>nil\<close> list whatever the body holds, and the error message includes the status code.
  \<^verbatim>\<open>makeTaskListRequest\<close> builds the status error with \<^verbatim>\<open>errors.Wrapf(err, ...)\<close> while
  \<^verbatim>\<open>err\<close> is \<^verbatim>\<open>nil\<close>, so it returns no bytes and no error; \<^verbatim>\<open>ListTasks\<close> then decodes the
  empty input. On status 404 the result is a \<^verbatim>\<open>nil\<close> list and the decoder's complaint about
  empty input, wrapped twice; the message does not hold the status code. The body of this
  response is one the decoder accepts, and it is never looked at.
\<close>

theorem ListTasks_wrong_status_decode_error:
  "fst (ListTasks (Unmarshal_table [(''{\"resources\":[]}'', one_page)])
         (respond_with \<lparr>StatusCode = 404, Body = (''{\"resources\":[]}'', None)\<rparr>)) =
     (None, Some (withMessage (withMessage (New ''unexpected end of JSON input'')
                    ''Error unmarshaling response %v'') ''Error reading tasks''))
   \<and> Error (withMessage (withMessage (New ''unexpected end of JSON input'')
                    ''Error unmarshaling response %v'') ''Error reading tasks'') =
       ''Error reading tasks: Error unmarshaling response %v: unexpected end of JSON input''
   \<and> \<not> sublist (Sprintf_d 404)
         ''Error reading tasks: Error unmarshaling response %v: unexpected end of JSON input''"
proof (intro conjI)
  show "fst (ListTasks (Unmarshal_table [(''{\"resources\":[]}'', one_page)])
         (respond_with \<lparr>StatusCode = 404, Body = (''{\"resources\":[]}'', None)\<rparr>)) =
     (None, Some (withMessage (withMessage (New ''unexpected end of JSON input'')
                    ''Error unmarshaling response %v'') ''Error reading tasks''))"
    by (simp add: ListTasks_result makeTaskListRequest_result parseTaskListRespones_result
        respond_with_def Unmarshal_table_def)
  show "Error (withMessage (withMessage (New ''unexpected end of JSON input'')
                    ''Error unmarshaling response %v'') ''Error reading tasks'') =
       ''Error reading tasks: Error unmarshaling response %v: unexpected end of JSON input''"
    by simp
  show "\<not> sublist (Sprintf_d 404)
         ''Error reading tasks: Error unmarshaling response %v: unexpected end of JSON input''"
    by code_simp
qed

subsection \<open>Creating a task: the request\<close>

text \<open>
  C3, as stated: the body that \<^verbatim>\<open>CreateTask\<close> sends contains only the non-empty or non-zero
  fields among command, name, memory_in_mb and disk_in_mb. It fails for a request whose
  command is empty: the key \<^verbatim>\<open>command\<close> is in the body with an empty value.
\<close>

theorem CreateTask_empty_command_counterexample:
  "createReader_rmap empty_command ''command'' = Some []
   \<and> \<not> spec_body_field empty_command ''command''
   \<and> sent (snd (CreateTask (Encode_keys task_keys) (Unmarshal_table [])
                  (respond_with \<lparr>StatusCode = 202, Body = ([], None)\<rparr>) empty_command)) =
       [\<lparr>Method = ''POST'', Path = ''/v3/apps/d1/tasks'',
          ReqBody = Some (''{\"command\":\"\"}'' @ [CHR 0x0A])\<rparr>]"
proof (intro conjI)
  show "createReader_rmap empty_command ''command'' = Some []"
    by (simp add: createReader_rmap_apply empty_command_def)
  show "\<not> spec_body_field empty_command ''command''"
    by (simp add: spec_body_field_def empty_command_def)
  have "Encode_keys task_keys (createReader_rmap empty_command) =
          (''{\"command\":\"\"}'' @ [CHR 0x0A], None)"
    by (simp add: Encode_keys_def task_keys_def createReader_rmap_apply empty_command_def quoted_def)
  from sent_CreateTask [of "Encode_keys task_keys" empty_command _ "Unmarshal_table []"
      "respond_with \<lparr>StatusCode = 202, Body = ([], None)\<rparr>", OF this]
  show "sent (snd (CreateTask (Encode_keys task_keys) (Unmarshal_table [])
                  (respond_with \<lparr>StatusCode = 202, Body = ([], None)\<rparr>) empty_command)) =
       [\<lparr>Method = ''POST'', Path = ''/v3/apps/d1/tasks'',
          ReqBody = Some (''{\"command\":\"\"}'' @ [CHR 0x0A])\<rparr>]"
    by (simp add: respond_with_def empty_command_def)
qed

text \<open>
  C3, amended: for every request, the body always has the key \<^verbatim>\<open>command\<close> with the command
  as it is; it has \<^verbatim>\<open>name\<close>, \<^verbatim>\<open>memory_in_mb\<close> and \<^verbatim>\<open>disk_in_mb\<close> exactly when the name is
  non-empty and the quota non-zero, and no other key. The droplet GUID does not influence
  the body. When the encoder reports no error, \<^verbatim>\<open>CreateTask\<close> issues exactly one request,
  a POST to \<^verbatim>\<open>/v3/apps/{dropletGUID}/tasks\<close> carrying the encoded map.
\<close>

theorem CreateTask_body_and_path:
  "createReader_rmap tr k =
     (if k = ''command'' then Some (Command tr)
      else if k = ''name'' \<and> Name tr \<noteq> [] then Some (Name tr)
      else if k = ''memory_in_mb'' \<and> MemoryInMegabyte tr \<noteq> 0
           then Some (Sprintf_d (MemoryInMegabyte tr))
      else if k = ''disk_in_mb'' \<and> DiskInMegabyte tr \<noteq> 0
           then Some (Sprintf_d (DiskInMegabyte tr))
      else None)
   \<and> createReader_rmap (tr\<lparr>DropletGUID := g\<rparr>) = createReader_rmap tr
   \<and> (Encode (createReader_rmap tr) = (written, None) \<longrightarrow>
        sent (snd (CreateTask Encode Unmarshal c tr)) =
          sent c @ [\<lparr>Method = ''POST'', Path = ''/v3/apps/'' @ DropletGUID tr @ ''/tasks'',
                     ReqBody = Some written\<rparr>])"
  using createReader_rmap_apply [of tr k] createReader_rmap_DropletGUID [of g tr]
    sent_CreateTask [of Encode tr written Unmarshal c]
  by blast

text \<open>
  The request \<^verbatim>\<open>{Command: "echo hi", DropletGUID: "d1"}\<close>: the map has the single key
  \<^verbatim>\<open>command\<close> and the request goes to \<^verbatim>\<open>/v3/apps/d1/tasks\<close>.
\<close>

theorem CreateTask_body_and_path_witness:
  "Encode_keys task_keys (createReader_rmap echo_hi) =
      (''{\"command\":\"echo hi\"}'' @ [CHR 0x0A], None)
   \<and> createReader_rmap echo_hi = [''command'' \<mapsto> ''echo hi'']
   \<and> sent (snd (CreateTask (Encode_keys task_keys) (Unmarshal_table [])
                  (respond_with \<lparr>StatusCode = 202, Body = ([], None)\<rparr>) echo_hi)) =
       [\<lparr>Method = ''POST'', Path = ''/v3/apps/d1/tasks'',
          ReqBody = Some (''{\"command\":\"echo hi\"}'' @ [CHR 0x0A])\<rparr>]"
proof -
  have m: "createReader_rmap echo_hi = [''command'' \<mapsto> ''echo hi'']"
    using CreateTask_body_and_path [of echo_hi]
    by (intro ext) (simp add: echo_hi_def)
  have e: "Encode_keys task_keys (createReader_rmap echo_hi) =
      (''{\"command\":\"echo hi\"}'' @ [CHR 0x0A], None)"
    by (simp add: m Encode_keys_def task_keys_def quoted_def)
  from e m CreateTask_body_and_path [of echo_hi _ _ "Encode_keys task_keys" _ "Unmarshal_table []"
      "respond_with \<lparr>StatusCode = 202, Body = ([], None)\<rparr>"]
  show ?thesis by (simp add: respond_with_def echo_hi_def)
qed

text \<open>
  C4. For every request with non-zero memory and disk quotas, the body holds
  \<^verbatim>\<open>memory_in_mb\<close> and \<^verbatim>\<open>disk_in_mb\<close> as strings (the values of a \<^verbatim>\<open>map[string]string\<close>),
  each the decimal numeral of the quota: reading the numeral back gives the quota. The
  request is a POST to \<^verbatim>\<open>/v3/apps/{dropletGUID}/tasks\<close> with the encoded map as body.
\<close>

theorem CreateTask_quotas_as_strings:
  assumes "MemoryInMegabyte tr \<noteq> 0" and "DiskInMegabyte tr \<noteq> 0"
    and "Encode (createReader_rmap tr) = (written, None)"
  shows "createReader_rmap tr ''memory_in_mb'' = Some (Sprintf_d (MemoryInMegabyte tr))
    \<and> createReader_rmap tr ''disk_in_mb'' = Some (Sprintf_d (DiskInMegabyte tr))
    \<and> Atoi (Sprintf_d (MemoryInMegabyte tr)) = MemoryInMegabyte tr
    \<and> Atoi (Sprintf_d (DiskInMegabyte tr)) = DiskInMegabyte tr
    \<and> sent (snd (CreateTask Encode Unmarshal c tr)) =
          sent c @ [\<lparr>Method = ''POST'', Path = ''/v3/apps/'' @ DropletGUID tr @ ''/tasks'',
                     ReqBody = Some written\<rparr>]"
proof (intro conjI)
  show "createReader_rmap tr ''memory_in_mb'' = Some (Sprintf_d (MemoryInMegabyte tr))"
    using assms(1) by (simp add: createReader_rmap_apply)
  show "createReader_rmap tr ''disk_in_mb'' = Some (Sprintf_d (DiskInMegabyte tr))"
    using assms(2) by (simp add: createReader_rmap_apply)
  show "Atoi (Sprintf_d (MemoryInMegabyte tr)) = MemoryInMegabyte tr"
    by (rule Atoi_Sprintf_d)
  show "Atoi (Sprintf_d (DiskInMegabyte tr)) = DiskInMegabyte tr"
    by (rule Atoi_Sprintf_d)
  show "sent (snd (CreateTask Encode Unmarshal c tr)) =
          sent c @ [\<lparr>Method = ''POST'', Path = ''/v3/apps/'' @ DropletGUID tr @ ''/tasks'',
                     ReqBody = Some written\<rparr>]"
    using assms(3) by (rule sent_CreateTask)
qed

text \<open>
  The request \<^verbatim>\<open>{Command: "x", Name: "n", MemoryInMegabyte: 256, DiskInMegabyte: 512,
  DropletGUID: "d2"}\<close>: the map sent to \<^verbatim>\<open>/v3/apps/d2/tasks\<close> has the four members of the
  specification's example, the quotas as the strings \<^verbatim>\<open>"256"\<close> and \<^verbatim>\<open>"512"\<close>.
\<close>

theorem CreateTask_quotas_as_strings_witness:
  "MemoryInMegabyte with_quotas \<noteq> 0 \<and> DiskInMegabyte with_quotas \<noteq> 0
   \<and> Encode_keys task_keys (createReader_rmap with_quotas) =
       (''{\"command\":\"x\",\"disk_in_mb\":\"512\",\"memory_in_mb\":\"256\",\"name\":\"n\"}''
          @ [CHR 0x0A], None)
   \<and> createReader_rmap with_quotas =
       [''command'' \<mapsto> ''x'', ''name'' \<mapsto> ''n'', ''memory_in_mb'' \<mapsto> ''256'',
        ''disk_in_mb'' \<mapsto> ''512'']
   \<and> createReader_rmap with_quotas ''memory_in_mb'' = Some ''256''
   \<and> createReader_rmap with_quotas ''disk_in_mb'' = Some ''512''
   \<and> sent (snd (CreateTask (Encode_keys task_keys) (Unmarshal_table [])
                  (respond_with \<lparr>StatusCode = 202, Body = ([], None)\<rparr>) with_quotas)) =
       [\<lparr>Method = ''POST'', Path = ''/v3/apps/d2/tasks'',
          ReqBody = Some (''{\"command\":\"x\",\"disk_in_mb\":\"512\",\"memory_in_mb\":\"256\",\"name\":\"n\"}''
            @ [CHR 0x0A])\<rparr>]"
proof -
  have m: "MemoryInMegabyte with_quotas \<noteq> 0" and d: "DiskInMegabyte with_quotas \<noteq> 0"
    by (simp_all add: with_quotas_def)
  have v: "MemoryInMegabyte with_quotas = 256" "DiskInMegabyte with_quotas = 512"
    "DropletGUID with_quotas = ''d2''"
    by (simp_all add: with_quotas_def)
  from CreateTask_quotas_as_strings [where tr = with_quotas
      and Encode = "Encode_keys task_keys" and Unmarshal = "Unmarshal_table []"
      and c = "respond_with \<lparr>StatusCode = 202, Body = ([], None)\<rparr>", OF m d Encode_keys_with_quotas]
  show ?thesis
    using m d Encode_keys_with_quotas createReader_rmap_with_quotas
    by (simp add: v Sprintf_d_256 Sprintf_d_512 respond_with_def)
qed

subsection \<open>Listing tasks: the decoded list\<close>

text \<open>
  C5. When the server answers the request of \<^verbatim>\<open>ListTasks\<close> with status 200 and a body
  that reads without error and decodes without error into a \<^verbatim>\<open>TaskListResponse\<close>,
  \<^verbatim>\<open>ListTasks\<close> returns a \<^verbatim>\<open>nil\<close> error and the task list of the decoded response, the same
  list in the same order.
\<close>

theorem ListTasks_returns_decoded_list:
  assumes "answers c (NewRequest ''GET'' ''/v3/tasks'') resp"
    and "StatusCode resp = 200"
    and "Body resp = (data, None)"
    and "Unmarshal data zero_TaskListResponse = (response, None)"
  shows "fst (ListTasks Unmarshal c) = (Tasks response, None)"
  using assms
  by (simp add: ListTasks_result makeTaskListRequest_result parseTaskListRespones_result
      answers_def)

theorem ListTasks_returns_decoded_list_witness:
  "answers (respond_with \<lparr>StatusCode = 200, Body = (''{\"resources\":[2,1]}'', None)\<rparr>)
     (NewRequest ''GET'' ''/v3/tasks'')
     \<lparr>StatusCode = 200, Body = (''{\"resources\":[2,1]}'', None)\<rparr>
   \<and> Unmarshal_table [(''{\"resources\":[2,1]}'', one_page)] ''{\"resources\":[2,1]}''
       zero_TaskListResponse = (one_page, None)
   \<and> fst (ListTasks (Unmarshal_table [(''{\"resources\":[2,1]}'', one_page)])
          (respond_with \<lparr>StatusCode = 200, Body = (''{\"resources\":[2,1]}'', None)\<rparr>)) =
       (Some [task_with_guid ''t2'', task_with_guid ''t1''], None)"
proof -
  have a: "answers (respond_with \<lparr>StatusCode = 200, Body = (''{\"resources\":[2,1]}'', None)\<rparr>)
     (NewRequest ''GET'' ''/v3/tasks'')
     \<lparr>StatusCode = 200, Body = (''{\"resources\":[2,1]}'', None)\<rparr>"
    by (simp add: answers_def respond_with_def)
  have u: "Unmarshal_table [(''{\"resources\":[2,1]}'', one_page)] ''{\"resources\":[2,1]}''
       zero_TaskListResponse = (one_page, None)"
    by (simp add: Unmarshal_table_def)
  from ListTasks_returns_decoded_list [where Unmarshal = "Unmarshal_table [(''{\"resources\":[2,1]}'', one_page)]"
      and response = one_page, OF a _ _ u] a u
  show ?thesis by (simp add: one_page_def)
qed

subsection \<open>No status check before decoding\<close>

text \<open>
  C6. \<^verbatim>\<open>TaskByGuid\<close>, \<^verbatim>\<open>TasksByApp\<close> and \<^verbatim>\<open>CreateTask\<close> never look at the status code of the
  response: whenever the transport hands back a response whose body reads without error,
  the result is determined by the decoder alone. If the decoder reports no error the
  decoded value is returned with a \<^verbatim>\<open>nil\<close> error; if it reports an error, that error is
  returned wrapped. The response is arbitrary, so its status code is too.
\<close>

theorem no_status_check_before_decoding:
  assumes "Body resp = (data, None)"
  shows "(answers c (NewRequest ''GET'' (''/v3/tasks/'' @ guid)) resp \<longrightarrow>
           fst (TaskByGuid Unmarshal c guid) =
             (case Unmarshal data zero_Task of
                (task, None) \<Rightarrow> (task, None)
              | (task, Some e) \<Rightarrow> (task, Some (withMessage e ''Error unmarshaling task''))))
    \<and> (answers c (NewRequest ''GET'' (''/v3/apps/'' @ guid @ ''/tasks'')) resp \<longrightarrow>
           fst (TasksByApp UnmarshalList c guid) =
             (case UnmarshalList data zero_TaskListResponse of
                (response, None) \<Rightarrow> (Tasks response, None)
              | (response, Some e) \<Rightarrow>
                  (None, Some (withMessage (withMessage e ''Error unmarshaling response %v'')
                                 ''Error parsing tasks''))))
    \<and> (Encode (createReader_rmap tr) = (written, None) \<and>
         answers c (NewRequestWithBody ''POST'' (''/v3/apps/'' @ DropletGUID tr @ ''/tasks'')
                      (Some written)) resp \<longrightarrow>
           fst (CreateTask Encode Unmarshal c tr) =
             (case Unmarshal data zero_Task of
                (task, None) \<Rightarrow> (task, None)
              | (task, Some e) \<Rightarrow> (task, Some (withMessage e ''Error unmarshaling task''))))"
  using assms TaskByGuid_result [of c guid resp data Unmarshal]
    TasksByApp_result [of c guid resp data UnmarshalList]
    CreateTask_result [of Encode tr written c resp data Unmarshal]
  by blast

text \<open>A response with status 500: the decoded value comes back with a \<^verbatim>\<open>nil\<close> error.\<close>

theorem no_status_check_before_decoding_witness:
  "Body server_error = (''{\"guid\":\"t1\"}'', None) \<and> StatusCode server_error = 500
   \<and> answers (respond_with server_error) (NewRequest ''GET'' (''/v3/tasks/'' @ ''abc'')) server_error
   \<and> fst (TaskByGuid (Unmarshal_table [(''{\"guid\":\"t1\"}'', task_with_guid ''t1'')])
            (respond_with server_error) ''abc'') = (task_with_guid ''t1'', None)
   \<and> fst (TaskByGuid (Unmarshal_table []) (respond_with server_error) ''abc'') =
         (zero_Task, Some (withMessage (New ''invalid character'') ''Error unmarshaling task''))
   \<and> fst (TasksByApp (Unmarshal_table [(''{\"guid\":\"t1\"}'', one_page)])
            (respond_with server_error) ''a1'') =
         (Some [task_with_guid ''t2'', task_with_guid ''t1''], None)
   \<and> fst (CreateTask (Encode_keys task_keys)
            (Unmarshal_table [(''{\"guid\":\"t1\"}'', task_with_guid ''t1'')])
            (respond_with server_error) with_quotas) = (task_with_guid ''t1'', None)"
proof -
  have b: "Body server_error = (''{\"guid\":\"t1\"}'', None)"
    and s: "StatusCode server_error = 500"
    by (simp_all add: server_error_def)
  note w = no_status_check_before_decoding [where resp = server_error
      and c = "respond_with server_error", OF b]
  have 1: "fst (TaskByGuid (Unmarshal_table [(''{\"guid\":\"t1\"}'', task_with_guid ''t1'')])
            (respond_with server_error) ''abc'') = (task_with_guid ''t1'', None)"
    using w [where guid = "''abc''"
        and Unmarshal = "Unmarshal_table [(''{\"guid\":\"t1\"}'', task_with_guid ''t1'')]",
        THEN conjunct1]
    by (simp add: answers_respond_with Unmarshal_table_def)
  have 2: "fst (TaskByGuid (Unmarshal_table []) (respond_with server_error) ''abc'') =
         (zero_Task, Some (withMessage (New ''invalid character'') ''Error unmarshaling task''))"
    using w [where guid = "''abc''" and Unmarshal = "Unmarshal_table []", THEN conjunct1]
    by (simp add: answers_respond_with Unmarshal_table_def)
  have 3: "fst (TasksByApp (Unmarshal_table [(''{\"guid\":\"t1\"}'', one_page)])
            (respond_with server_error) ''a1'') =
         (Some [task_with_guid ''t2'', task_with_guid ''t1''], None)"
    using w [where guid = "''a1''"
        and UnmarshalList = "Unmarshal_table [(''{\"guid\":\"t1\"}'', one_page)]",
        THEN conjunct2, THEN conjunct1]
    by (simp add: answers_respond_with Unmarshal_table_def one_page_def)
  have 4: "fst (CreateTask (Encode_keys task_keys)
            (Unmarshal_table [(''{\"guid\":\"t1\"}'', task_with_guid ''t1'')])
            (respond_with server_error) with_quotas) = (task_with_guid ''t1'', None)"
    using w [where tr = with_quotas and Encode = "Encode_keys task_keys"
        and Unmarshal = "Unmarshal_table [(''{\"guid\":\"t1\"}'', task_with_guid ''t1'')]"
        and written = "''{\"command\":\"x\",\"disk_in_mb\":\"512\",\"memory_in_mb\":\"256\",\"name\":\"n\"}'' @ [CHR 0x0A]",
        THEN conjunct2, THEN conjunct2]
      Encode_keys_with_quotas
    by (simp add: answers_respond_with Unmarshal_table_def)
  from b s 1 2 3 4 answers_respond_with show ?thesis by simp
qed

subsection \<open>Reading one task\<close>

text \<open>
  C7. \<^verbatim>\<open>TaskByGuid(guid)\<close> issues exactly one request, a GET to \<^verbatim>\<open>/v3/tasks/{guid}\<close>
  without body, and when the response's body reads and decodes without error it returns
  the decoded task with a \<^verbatim>\<open>nil\<close> error.
\<close>

theorem TaskByGuid_request_and_result:
  "sent (snd (TaskByGuid Unmarshal c guid)) =
     sent c @ [\<lparr>Method = ''GET'', Path = ''/v3/tasks/'' @ guid, ReqBody = None\<rparr>]
   \<and> (answers c (NewRequest ''GET'' (''/v3/tasks/'' @ guid)) resp \<and>
        Body resp = (data, None) \<and> Unmarshal data zero_Task = (task, None) \<longrightarrow>
        fst (TaskByGuid Unmarshal c guid) = (task, None))"
  using sent_TaskByGuid [of Unmarshal c guid] TaskByGuid_result [of c guid resp data Unmarshal]
  by simp

theorem TaskByGuid_request_and_result_witness:
  "answers (respond_with server_error) (NewRequest ''GET'' (''/v3/tasks/'' @ ''abc'')) server_error
   \<and> Body server_error = (''{\"guid\":\"t1\"}'', None)
   \<and> Unmarshal_table [(''{\"guid\":\"t1\"}'', task_with_guid ''t1'')] ''{\"guid\":\"t1\"}'' zero_Task =
       (task_with_guid ''t1'', None)
   \<and> sent (snd (TaskByGuid (Unmarshal_table [(''{\"guid\":\"t1\"}'', task_with_guid ''t1'')])
                  (respond_with server_error) ''abc'')) =
       [\<lparr>Method = ''GET'', Path = ''/v3/tasks/abc'', ReqBody = None\<rparr>]
   \<and> fst (TaskByGuid (Unmarshal_table [(''{\"guid\":\"t1\"}'', task_with_guid ''t1'')])
            (respond_with server_error) ''abc'') = (task_with_guid ''t1'', None)"
proof -
  have b: "Body server_error = (''{\"guid\":\"t1\"}'', None)"
    by (simp add: server_error_def)
  have u: "Unmarshal_table [(''{\"guid\":\"t1\"}'', task_with_guid ''t1'')] ''{\"guid\":\"t1\"}'' zero_Task =
       (task_with_guid ''t1'', None)"
    by (simp add: Unmarshal_table_def)
  from TaskByGuid_request_and_result [where guid = "''abc''" and c = "respond_with server_error"
      and resp = server_error and data = "''{\"guid\":\"t1\"}''" and task = "task_with_guid ''t1''"
      and Unmarshal = "Unmarshal_table [(''{\"guid\":\"t1\"}'', task_with_guid ''t1'')]"]
    b u answers_respond_with [of server_error]
  show ?thesis by (simp add: respond_with_def)
qed

subsection \<open>The tasks of an application\<close>

text \<open>
  C8. \<^verbatim>\<open>TasksByApp(guid)\<close> issues exactly one request, a GET to
  \<^verbatim>\<open>/v3/apps/{guid}/tasks\<close>, whatever the response holds, and returns the task list of the
  one page decoded from that response. The statement holds for every decoded response,
  hence also when its \<^verbatim>\<open>pagination.next\<close> is not \<^verbatim>\<open>nil\<close>.
\<close>

theorem TasksByApp_single_page:
  "sent (snd (TasksByApp Unmarshal c guid)) =
     sent c @ [\<lparr>Method = ''GET'', Path = ''/v3/apps/'' @ guid @ ''/tasks'', ReqBody = None\<rparr>]
   \<and> (answers c (NewRequest ''GET'' (''/v3/apps/'' @ guid @ ''/tasks'')) resp \<and>
        Body resp = (data, None) \<and> Unmarshal data zero_TaskListResponse = (response, None) \<longrightarrow>
        fst (TasksByApp Unmarshal c guid) = (Tasks response, None))"
  using sent_TasksByApp [of Unmarshal c guid] TasksByApp_result [of c guid resp data Unmarshal]
  by simp

text \<open>A first page that names a next page: one request, the tasks of the first page.\<close>

theorem TasksByApp_single_page_witness:
  "answers (respond_with first_page) (NewRequest ''GET'' (''/v3/apps/'' @ ''a1'' @ ''/tasks''))
     first_page
   \<and> Body first_page = (''{\"pagination\":{\"next\":\"/v3/apps/a1/tasks?page=2\"}}'', None)
   \<and> Unmarshal_table [(''{\"pagination\":{\"next\":\"/v3/apps/a1/tasks?page=2\"}}'', one_page)]
         ''{\"pagination\":{\"next\":\"/v3/apps/a1/tasks?page=2\"}}'' zero_TaskListResponse =
       (one_page, None)
   \<and> Next (Pagination one_page) \<noteq> None
   \<and> sent (snd (TasksByApp
                  (Unmarshal_table [(''{\"pagination\":{\"next\":\"/v3/apps/a1/tasks?page=2\"}}'', one_page)])
                  (respond_with first_page) ''a1'')) =
       [\<lparr>Method = ''GET'', Path = ''/v3/apps/a1/tasks'', ReqBody = None\<rparr>]
   \<and> fst (TasksByApp
            (Unmarshal_table [(''{\"pagination\":{\"next\":\"/v3/apps/a1/tasks?page=2\"}}'', one_page)])
            (respond_with first_page) ''a1'') =
       (Some [task_with_guid ''t2'', task_with_guid ''t1''], None)"
proof -
  have b: "Body first_page = (''{\"pagination\":{\"next\":\"/v3/apps/a1/tasks?page=2\"}}'', None)"
    by (simp add: first_page_def)
  have u: "Unmarshal_table [(''{\"pagination\":{\"next\":\"/v3/apps/a1/tasks?page=2\"}}'', one_page)]
         ''{\"pagination\":{\"next\":\"/v3/apps/a1/tasks?page=2\"}}'' zero_TaskListResponse =
       (one_page, None)"
    by (simp add: Unmarshal_table_def)
  have n: "Next (Pagination one_page) \<noteq> None" "Tasks one_page = Some [task_with_guid ''t2'', task_with_guid ''t1'']"
    by (simp_all add: one_page_def)
  from TasksByApp_single_page [where guid = "''a1''" and c = "respond_with first_page"
      and resp = first_page and response = one_page
      and data = "''{\"pagination\":{\"next\":\"/v3/apps/a1/tasks?page=2\"}}''"
      and Unmarshal = "Unmarshal_table [(''{\"pagination\":{\"next\":\"/v3/apps/a1/tasks?page=2\"}}'', one_page)]"]
    b u n answers_respond_with [of first_page]
  show ?thesis by (simp add: respond_with_def)
qed

subsection \<open>The command is always sent\<close>

text \<open>
  C9. For every request the map built by \<^verbatim>\<open>createReader\<close> has the key \<^verbatim>\<open>command\<close>, bound
  to the command even when it is empty; \<^verbatim>\<open>name\<close>, \<^verbatim>\<open>memory_in_mb\<close> and \<^verbatim>\<open>disk_in_mb\<close> are
  present exactly when the name is non-empty and the quota non-zero. \<^verbatim>\<open>createReader\<close>
  hands this map to the encoder and returns what the encoder wrote.
\<close>

theorem createReader_always_sends_command:
  "createReader_rmap tr ''command'' = Some (Command tr)
   \<and> (''name'' \<in> dom (createReader_rmap tr)) = (Name tr \<noteq> [])
   \<and> (''memory_in_mb'' \<in> dom (createReader_rmap tr)) = (MemoryInMegabyte tr \<noteq> 0)
   \<and> (''disk_in_mb'' \<in> dom (createReader_rmap tr)) = (DiskInMegabyte tr \<noteq> 0)
   \<and> createReader Encode tr =
       (case Encode (createReader_rmap tr) of
          (written, None) \<Rightarrow> (Some written, None)
        | (written, Some e) \<Rightarrow>
            (None, Some (withMessage e ''Error during encoding task request'')))"
  using createReader_Encode [of Encode tr]
  by (simp add: createReader_rmap_apply dom_def)

text \<open>With an empty command the body is \<^verbatim>\<open>{"command":""}\<close>.\<close>

theorem createReader_always_sends_command_witness:
  "createReader_rmap empty_command = [''command'' \<mapsto> []]
   \<and> createReader (Encode_keys task_keys) empty_command =
       (Some (''{\"command\":\"\"}'' @ [CHR 0x0A]), None)"
proof -
  note w = createReader_always_sends_command [where tr = empty_command
      and Encode = "Encode_keys task_keys"]
  have m: "createReader_rmap empty_command = [''command'' \<mapsto> []]"
    using w by (intro ext) (simp add: createReader_rmap_apply empty_command_def)
  from w show ?thesis
    by (simp add: m Encode_keys_def task_keys_def quoted_def)
qed

subsection \<open>A response without resources\<close>



end
